theory Spec2Isabelle
  imports Main
begin

section \<open>Python strings\<close>

text \<open>
  A Python \<open>str\<close> is modelled as a \<open>string\<close>, one \<open>char\<close> per code point, which covers
  the code points 0 to 255 (ASCII and Latin-1). The character classes below are the ones
  Python's Unicode database gives on that range.
\<close>

definition py_lower_char :: "char \<Rightarrow> char" where
  \<comment> \<open>\<open>c.lower()\<close> for one character: A-Z and the upper-case Latin-1 letters move by 32.\<close>
  "py_lower_char c =
     (let n = (of_char c :: nat)
      in if (65 \<le> n \<and> n \<le> 90) \<or> (192 \<le> n \<and> n \<le> 222 \<and> n \<noteq> 215)
         then char_of (n + 32) else c)"

definition py_lower :: "string \<Rightarrow> string" where
  \<comment> \<open>\<open>s.lower()\<close>\<close>
  "py_lower s = map py_lower_char s"

definition py_isalpha_char :: "char \<Rightarrow> bool" where
  \<comment> \<open>\<open>c.isalpha()\<close>: the letters\<close>
  "py_isalpha_char c =
     (let n = (of_char c :: nat)
      in (65 \<le> n \<and> n \<le> 90) \<or> (97 \<le> n \<and> n \<le> 122) \<or> n = 170 \<or> n = 181 \<or> n = 186
         \<or> (192 \<le> n \<and> n \<le> 214) \<or> (216 \<le> n \<and> n \<le> 246) \<or> (248 \<le> n \<and> n \<le> 255))"

definition py_isdecimal_char :: "char \<Rightarrow> bool" where
  \<comment> \<open>\<open>c.isdecimal()\<close>: the digits 0-9\<close>
  "py_isdecimal_char c = (let n = (of_char c :: nat) in 48 \<le> n \<and> n \<le> 57)"

definition py_isdigit_char :: "char \<Rightarrow> bool" where
  \<comment> \<open>\<open>c.isdigit()\<close>: the digits 0-9 and the superscript digits 1, 2 and 3\<close>
  "py_isdigit_char c =
     (let n = (of_char c :: nat)
      in (48 \<le> n \<and> n \<le> 57) \<or> n = 178 \<or> n = 179 \<or> n = 185)"

definition py_isnumeric_char :: "char \<Rightarrow> bool" where
  \<comment> \<open>\<open>c.isnumeric()\<close>: what \<open>isdigit\<close> accepts, and the vulgar fractions 1/4, 1/2
      and 3/4\<close>
  "py_isnumeric_char c =
     (let n = (of_char c :: nat)
      in (48 \<le> n \<and> n \<le> 57) \<or> n = 178 \<or> n = 179 \<or> n = 185 \<or> (188 \<le> n \<and> n \<le> 190))"

definition py_isalnum :: "string \<Rightarrow> bool" where
  \<comment> \<open>\<open>s.isalnum()\<close>: at least one character, and for every character \<open>c\<close> one of
      \<open>c.isalpha()\<close>, \<open>c.isdecimal()\<close>, \<open>c.isdigit()\<close>, \<open>c.isnumeric()\<close>\<close>
  "py_isalnum s =
     (s \<noteq> []
      \<and> list_all (\<lambda>c. py_isalpha_char c \<or> py_isdecimal_char c \<or> py_isdigit_char c
                        \<or> py_isnumeric_char c) s)"

definition py_remove :: "char \<Rightarrow> string \<Rightarrow> string" where
  \<comment> \<open>\<open>s.replace(c, '')\<close> for a one-character \<open>c\<close>: every occurrence is dropped\<close>
  "py_remove c s = filter (\<lambda>x. x \<noteq> c) s"

fun py_split :: "char \<Rightarrow> string \<Rightarrow> string list" where
  \<comment> \<open>\<open>s.split(c)\<close> for a one-character separator; the result is never empty\<close>
  "py_split c [] = [[]]"
| "py_split c (x # xs) =
     (if x = c then [] # py_split c xs
      else (let ps = py_split c xs in (x # hd ps) # tl ps))"

fun digit_char :: "nat \<Rightarrow> char" where
  "digit_char n = char_of (48 + n)"

fun str_nat :: "nat \<Rightarrow> string" where
  "str_nat n = (if n < 10 then [digit_char n] else str_nat (n div 10) @ [digit_char (n mod 10)])"

definition str_int :: "int \<Rightarrow> string" where
  \<comment> \<open>\<open>str(i)\<close> for a Python integer\<close>
  "str_int i = (if i < 0 then CHR ''-'' # str_nat (nat (- i)) else str_nat (nat i))"

section \<open>Content type inference (services/s3\_service.py)\<close>

definition content_types :: "(string \<times> string) list" where
  "content_types =
     [(''jpg'', ''image/jpeg''),
      (''jpeg'', ''image/jpeg''),
      (''png'', ''image/png''),
      (''gif'', ''image/gif''),
      (''webp'', ''image/webp''),
      (''bmp'', ''image/bmp'')]"

definition get_content_type :: "string \<Rightarrow> string" where
  \<comment> \<open>\<open>S3Service._get_content_type\<close>\<close>
  "get_content_type filename =
     (let extension = (if CHR ''.'' \<in> set filename
                       then last (py_split (CHR ''.'') (py_lower filename)) else '''')
      in case map_of content_types extension of
           Some t \<Rightarrow> t
         | None \<Rightarrow> ''application/octet-stream'')"

section \<open>Bucket name validation (products/forms.py)\<close>

datatype validation_error = ValidationError string

definition clean_bucket_name :: "string option \<Rightarrow> validation_error + string" where
  \<comment> \<open>\<open>ConfigForm.clean_bucket_name\<close>; the argument is \<open>cleaned_data.get('bucket_name')\<close>,
      \<open>None\<close> when the field has no cleaned value\<close>
  "clean_bucket_name bucket_name_opt =
     (case bucket_name_opt of
        None \<Rightarrow> Inl (ValidationError ''El nombre del bucket principal es obligatorio.'')
      | Some bucket_name \<Rightarrow>
          if bucket_name = [] then
            Inl (ValidationError ''El nombre del bucket principal es obligatorio.'')
          else if \<not> py_isalnum (py_remove (CHR ''.'') (py_remove (CHR ''-'') bucket_name)) then
            Inl (ValidationError
              (''El nombre del bucket solo puede contener letras, n'' @ [CHR 0xFA]
                 @ ''meros, guiones y puntos.''))
          else if length bucket_name < 3 \<or> length bucket_name > 63 then
            Inl (ValidationError ''El nombre del bucket debe tener entre 3 y 63 caracteres.'')
          else Inr (py_lower bucket_name))"

section \<open>Exceptions, the storage backend and the world\<close>

text \<open>
  The exceptions the code distinguishes. botocore's \<open>ClientError\<close> is an error response
  of the storage service: it carries \<open>e.response\<close> and its text \<open>str(e)\<close>. Of the response
  the code reads \<open>e.response['Error']['Code']\<close> and \<open>e.response['Error']['Message']\<close>,
  with plain subscripts: the response may lack \<open>'Error'\<close>, and the entry may lack either
  key, and reading a missing key raises \<open>KeyError\<close>. The others are botocore's
  \<open>NoCredentialsError\<close>, the \<open>KeyError\<close> of a missing key, and every other subclass of
  \<open>Exception\<close> (transport errors, \<open>ValueError\<close> of a closed file, the plain \<open>Exception\<close>
  the service raises itself), each with its text \<open>str(e)\<close>.
\<close>

record error_entry =
  Code :: "string option"
  Message :: "string option"

datatype exn =
    ClientError "error_entry option" string
  | NoCredentialsError string
  | KeyError string
  | PyException string

fun str_exn :: "exn \<Rightarrow> string" where
  "str_exn (ClientError response text) = text"
| "str_exn (NoCredentialsError text) = text"
| "str_exn (KeyError k) = CHR 0x27 # k @ [CHR 0x27]"
| "str_exn (PyException text) = text"

fun is_ClientError :: "exn \<Rightarrow> bool" where
  "is_ClientError (ClientError response text) = True"
| "is_ClientError (NoCredentialsError text) = False"
| "is_ClientError (KeyError k) = False"
| "is_ClientError (PyException text) = False"

definition error_code :: "error_entry option \<Rightarrow> exn + string" where
  \<comment> \<open>\<open>e.response['Error']['Code']\<close>\<close>
  "error_code response =
     (case response of
        None \<Rightarrow> Inl (KeyError ''Error'')
      | Some entry \<Rightarrow>
          (case Code entry of None \<Rightarrow> Inl (KeyError ''Code'') | Some c \<Rightarrow> Inr c))"

definition error_message :: "error_entry option \<Rightarrow> exn + string" where
  \<comment> \<open>\<open>e.response['Error']['Message']\<close>\<close>
  "error_message response =
     (case response of
        None \<Rightarrow> Inl (KeyError ''Error'')
      | Some entry \<Rightarrow>
          (case Message entry of None \<Rightarrow> Inl (KeyError ''Message'') | Some m \<Rightarrow> Inr m))"

record s3_client =
  aws_access_key_id :: "string option"
  aws_secret_access_key :: "string option"
  region_name :: string

record upload_request =
  Fileobj :: "nat list"
  upload_Bucket :: string
  upload_Key :: string
  ContentType :: string

record copy_request =
  CopySource_Bucket :: string
  CopySource_Key :: string
  Bucket :: string
  Key :: string
  ACL :: string

text \<open>
  Every request the code sends to boto3 is recorded, with the exception it raised if any.
  A listing page is a dict that may lack \<open>'Contents'\<close>; of a listed object only its
  \<open>'Key'\<close> is read.
\<close>

datatype call =
    Boto3Client s3_client
  | HeadBucket string
  | UploadFileobj upload_request
  | DeleteObject string string
  | ListObjectsV2 string
  | CopyObject copy_request
  | HeadObject string string

type_synonym event = "call \<times> exn option"

type_synonym page = "string list option"

text \<open>
  boto3 and the storage service are outside the repository: they are a parameter. Each
  operation answers from the requests made so far and the request at hand, so the same
  request may succeed once and fail later. \<open>paginate\<close> gives the pages the paginator
  yields for a bucket, in order, one listing request each; a page that cannot be fetched
  is the exception raised instead, and ends the iteration. The pages are a list: the
  \<open>for\<close> loops of \<open>copy_all_files\<close> end when the paginator does, and a listing that
  never ends is not a run that returns.
\<close>

record backend =
  boto3_client :: "event list \<Rightarrow> s3_client \<Rightarrow> exn option"
  head_bucket :: "event list \<Rightarrow> string \<Rightarrow> exn option"
  upload_fileobj :: "event list \<Rightarrow> upload_request \<Rightarrow> exn option"
  delete_object :: "event list \<Rightarrow> string \<Rightarrow> string \<Rightarrow> exn option"
  paginate :: "event list \<Rightarrow> string \<Rightarrow> (exn + page) list"
  copy_object :: "event list \<Rightarrow> copy_request \<Rightarrow> exn option"
  head_object :: "event list \<Rightarrow> string \<Rightarrow> string \<Rightarrow> exn option"

datatype level = INFO | WARNING | ERROR

record world =
  calls :: "event list"
  log :: "(level \<times> string) list"

definition record_call :: "call \<Rightarrow> exn option \<Rightarrow> world \<Rightarrow> world" where
  "record_call c r w = w\<lparr>calls := calls w @ [(c, r)]\<rparr>"

definition logger :: "level \<Rightarrow> string \<Rightarrow> world \<Rightarrow> world" where
  "logger l msg w = w\<lparr>log := log w @ [(l, msg)]\<rparr>"

section \<open>S3Service (services/s3\_service.py)\<close>

text \<open>
  The Django settings the constructor reads. The two credential attributes are taken to be
  defined (\<open>None\<close> is the Python value \<open>None\<close>); for the two read with \<open>getattr\<close> and a
  default, \<open>None\<close> stands for an attribute that is not defined.
\<close>

record settings =
  AWS_ACCESS_KEY_ID :: "string option"
  AWS_SECRET_ACCESS_KEY :: "string option"
  AWS_REGION :: "string option"
  AWS_S3_BUCKET :: "string option"

record s3_service =
  s3_client :: s3_client
  bucket_name :: string

definition test_connection :: "backend \<Rightarrow> s3_service \<Rightarrow> world \<Rightarrow> (exn + unit) \<times> world" where
  \<comment> \<open>\<open>S3Service._test_connection\<close>; a \<open>KeyError\<close> raised inside the
      \<open>except ClientError\<close> clause is not caught by the clause after it\<close>
  "test_connection be self w =
     (let r = head_bucket be (calls w) (bucket_name self);
          w1 = record_call (HeadBucket (bucket_name self)) r w
      in case r of
           None \<Rightarrow>
             (Inr (), logger INFO (''Successfully connected to S3 bucket: '' @ bucket_name self) w1)
         | Some (ClientError response text) \<Rightarrow>
             (case error_code response of
                Inl missing \<Rightarrow> (Inl missing, w1)
              | Inr code \<Rightarrow>
                  if code = ''404'' then
                    (Inr (), logger WARNING (''Bucket '' @ bucket_name self
                                               @ '' does not exist'') w1)
                  else if code = ''403'' then
                    (Inr (), logger WARNING (''Access denied to bucket '' @ bucket_name self
                                               @ '' - check permissions'') w1)
                  else
                    (Inr (), logger WARNING (''Error accessing bucket '' @ bucket_name self
                                               @ '': '' @ text) w1))
         | Some e \<Rightarrow>
             (Inr (), logger WARNING (''Could not test S3 connection: '' @ str_exn e) w1))"

definition init_handler :: "exn \<Rightarrow> world \<Rightarrow> (exn + s3_service) \<times> world" where
  \<comment> \<open>the \<open>except NoCredentialsError\<close> clause of \<open>__init__\<close>; anything else propagates\<close>
  "init_handler e w =
     (case e of
        NoCredentialsError text \<Rightarrow>
          (Inl (PyException ''AWS credentials not configured properly''),
           logger ERROR ''AWS credentials not found'' w)
      | _ \<Rightarrow> (Inl e, w))"

definition S3Service_init :: "backend \<Rightarrow> settings \<Rightarrow> world \<Rightarrow> (exn + s3_service) \<times> world" where
  \<comment> \<open>\<open>S3Service.__init__\<close>\<close>
  "S3Service_init be st w =
     (let client = \<lparr>aws_access_key_id = AWS_ACCESS_KEY_ID st,
                     aws_secret_access_key = AWS_SECRET_ACCESS_KEY st,
                     region_name = (case AWS_REGION st of None \<Rightarrow> ''us-east-1'' | Some r \<Rightarrow> r)\<rparr>;
          r = boto3_client be (calls w) client;
          w1 = record_call (Boto3Client client) r w
      in case r of
           Some e \<Rightarrow> init_handler e w1
         | None \<Rightarrow>
             (let self = \<lparr>s3_client = client,
                          bucket_name = (case AWS_S3_BUCKET st of None \<Rightarrow> ''jfm02'' | Some b \<Rightarrow> b)\<rparr>
              in case test_connection be self w1 of
                   (Inl e, w2) \<Rightarrow> init_handler e w2
                 | (Inr u, w2) \<Rightarrow> (Inr self, w2)))"

text \<open>
  The file object handed to \<open>upload_file\<close>: its \<open>name\<close> attribute if it has one, the
  exception \<open>seek(0)\<close> raises if any (a closed file), and its bytes.
\<close>

record fileobj =
  file_name :: "string option"
  seek_raises :: "exn option"
  content :: "nat list"

definition upload_handler :: "string \<Rightarrow> exn \<Rightarrow> world \<Rightarrow> (exn + bool) \<times> world" where
  \<comment> \<open>the two \<open>except\<close> clauses of \<open>upload_file\<close>; the first reads the code and then,
      to build the log message, the message of the response, and a \<open>KeyError\<close> raised there
      leaves \<open>upload_file\<close> before anything is logged\<close>
  "upload_handler key e w =
     (case e of
        ClientError response text \<Rightarrow>
          (case error_code response of
             Inl missing \<Rightarrow> (Inl missing, w)
           | Inr code \<Rightarrow>
               (case error_message response of
                  Inl missing \<Rightarrow> (Inl missing, w)
                | Inr msg \<Rightarrow>
                    (Inr False, logger ERROR (''S3 ClientError: '' @ code @ '' - '' @ msg) w)))
      | _ \<Rightarrow>
          (Inr False, logger ERROR (''Unexpected error uploading '' @ key @ '': '' @ str_exn e) w))"

definition upload_file ::
  "backend \<Rightarrow> s3_service \<Rightarrow> fileobj \<Rightarrow> string \<Rightarrow> world \<Rightarrow> (exn + bool) \<times> world" where
  \<comment> \<open>\<open>S3Service.upload_file\<close>\<close>
  "upload_file be self file key w =
     (case seek_raises file of
        Some e \<Rightarrow> upload_handler key e w
      | None \<Rightarrow>
          (let w1 = logger INFO (''Uploading '' @ key @ '' to bucket '' @ bucket_name self) w;
               req = \<lparr>Fileobj = content file,
                      upload_Bucket = bucket_name self,
                      upload_Key = key,
                      ContentType = get_content_type
                                      (case file_name file of None \<Rightarrow> key | Some n \<Rightarrow> n)\<rparr>;
               r = upload_fileobj be (calls w1) req;
               w2 = record_call (UploadFileobj req) r w1
           in case r of
                Some e \<Rightarrow> upload_handler key e w2
              | None \<Rightarrow> (Inr True, logger INFO (''Successfully uploaded '' @ key) w2)))"

definition delete_file :: "backend \<Rightarrow> s3_service \<Rightarrow> string \<Rightarrow> world \<Rightarrow> (exn + bool) \<times> world" where
  \<comment> \<open>\<open>S3Service.delete_file\<close>\<close>
  "delete_file be self key w =
     (let r = delete_object be (calls w) (bucket_name self) key;
          w1 = record_call (DeleteObject (bucket_name self) key) r w
      in case r of
           None \<Rightarrow>
             (Inr True, logger INFO (''Successfully deleted '' @ key @ '' from '' @ bucket_name self) w1)
         | Some (ClientError response text) \<Rightarrow>
             (Inr False, logger ERROR (''Failed to delete '' @ key @ '': '' @ text) w1)
         | Some e \<Rightarrow>
             (Inr False, logger ERROR (''Unexpected error deleting '' @ key @ '': '' @ str_exn e) w1))"

definition get_file_url :: "s3_service \<Rightarrow> string \<Rightarrow> string" where
  \<comment> \<open>\<open>S3Service.get_file_url\<close>\<close>
  "get_file_url self key = ''https://'' @ bucket_name self @ ''.s3.amazonaws.com/'' @ key"

definition file_exists :: "backend \<Rightarrow> s3_service \<Rightarrow> string \<Rightarrow> world \<Rightarrow> (exn + bool) \<times> world" where
  \<comment> \<open>\<open>S3Service.file_exists\<close>: only \<open>ClientError\<close> is caught\<close>
  "file_exists be self key w =
     (let r = head_object be (calls w) (bucket_name self) key;
          w1 = record_call (HeadObject (bucket_name self) key) r w
      in case r of
           None \<Rightarrow> (Inr True, w1)
         | Some (ClientError response text) \<Rightarrow> (Inr False, w1)
         | Some e \<Rightarrow> (Inl e, w1))"

section \<open>Replication (S3Service.copy\_all\_files)\<close>

record failed_file =
  key :: string
  error :: string

record report =
  success_count :: int
  failed_files :: "failed_file list"
  total_processed :: int

fun copy_objects ::
  "backend \<Rightarrow> string \<Rightarrow> string \<Rightarrow> string list \<Rightarrow> report \<Rightarrow> world \<Rightarrow> (exn + report) \<times> world" where
  \<comment> \<open>the loop \<open>for obj in page['Contents']\<close>; an exception that the inner
      \<open>except ClientError\<close> does not catch leaves the loop\<close>
  "copy_objects be source_bucket target_bucket [] results w = (Inr results, w)"
| "copy_objects be source_bucket target_bucket (k # ks) results w =
     (let results1 = results\<lparr>total_processed := total_processed results + 1\<rparr>;
          req = \<lparr>CopySource_Bucket = source_bucket, CopySource_Key = k,
                 Bucket = target_bucket, Key = k, ACL = ''public-read''\<rparr>;
          r = copy_object be (calls w) req;
          w1 = record_call (CopyObject req) r w
      in case r of
           None \<Rightarrow>
             copy_objects be source_bucket target_bucket ks
               (results1\<lparr>success_count := success_count results1 + 1\<rparr>)
               (logger INFO (''Successfully copied '' @ k @ '' from '' @ source_bucket
                               @ '' to '' @ target_bucket) w1)
         | Some (ClientError response text) \<Rightarrow>
             copy_objects be source_bucket target_bucket ks
               (results1\<lparr>failed_files := failed_files results1 @ [\<lparr>key = k, error = text\<rparr>]\<rparr>)
               (logger ERROR (''Failed to copy '' @ k @ '': '' @ text) w1)
         | Some e \<Rightarrow> (Inl e, w1))"

fun copy_pages ::
  "backend \<Rightarrow> string \<Rightarrow> string \<Rightarrow> (exn + page) list \<Rightarrow> report \<Rightarrow> world
     \<Rightarrow> (exn + report) \<times> world" where
  \<comment> \<open>the loop \<open>for page in pages\<close>: one listing request per page\<close>
  "copy_pages be source_bucket target_bucket [] results w = (Inr results, w)"
| "copy_pages be source_bucket target_bucket (p # ps) results w =
     (case p of
        Inl e \<Rightarrow> (Inl e, record_call (ListObjectsV2 source_bucket) (Some e) w)
      | Inr None \<Rightarrow>
          copy_pages be source_bucket target_bucket ps results
            (record_call (ListObjectsV2 source_bucket) None w)
      | Inr (Some contents) \<Rightarrow>
          (case copy_objects be source_bucket target_bucket contents results
                  (record_call (ListObjectsV2 source_bucket) None w) of
             (Inl e, w1) \<Rightarrow> (Inl e, w1)
           | (Inr results1, w1) \<Rightarrow> copy_pages be source_bucket target_bucket ps results1 w1))"

definition copy_all_files ::
  "backend \<Rightarrow> s3_service \<Rightarrow> string \<Rightarrow> string \<Rightarrow> world \<Rightarrow> (exn + report) \<times> world" where
  \<comment> \<open>\<open>S3Service.copy_all_files\<close>: the two outer \<open>except\<close> clauses turn whatever left the
      loops into a plain \<open>Exception\<close>\<close>
  "copy_all_files be self source_bucket target_bucket w =
     (let results = \<lparr>success_count = 0, failed_files = [], total_processed = 0\<rparr>;
          pages = paginate be (calls w) source_bucket
      in case copy_pages be source_bucket target_bucket pages results w of
           (Inr results1, w1) \<Rightarrow>
             (Inr results1,
              logger INFO (''Backup completed: '' @ str_int (success_count results1) @ ''/''
                             @ str_int (total_processed results1) @ '' files copied'') w1)
         | (Inl (ClientError response text), w1) \<Rightarrow>
             (Inl (PyException (''Cannot access source bucket: '' @ text)),
              logger ERROR (''Failed to list objects in source bucket '' @ source_bucket
                              @ '': '' @ text) w1)
         | (Inl e, w1) \<Rightarrow>
             (Inl (PyException (''Backup failed: '' @ str_exn e)),
              logger ERROR (''Unexpected error during backup: '' @ str_exn e) w1))"

section \<open>The backup view (products/views.py)\<close>

record config =
  config_bucket_name :: string
  backup_bucket :: string

record json_response =
  json_success :: bool
  json_error :: "string option"
  json_warning :: "bool option"
  json_message :: "string option"
  json_results :: "report option"

definition json_failure :: "string \<Rightarrow> json_response" where
  \<comment> \<open>\<open>JsonResponse({'success': False, 'error': msg})\<close>\<close>
  "json_failure msg =
     \<lparr>json_success = False, json_error = Some msg, json_warning = None,
      json_message = None, json_results = None\<rparr>"

definition admin_backup ::
  "backend \<Rightarrow> settings \<Rightarrow> (exn + config option) \<Rightarrow> string \<Rightarrow> world \<Rightarrow> json_response \<times> world" where
  \<comment> \<open>\<open>admin_backup\<close>; \<open>first\<close> is what \<open>Config.objects.first()\<close> gives (a row, \<open>None\<close>, or
      the exception the database raises), \<open>method\<close> is \<open>request.method\<close>\<close>
  "admin_backup be st first method w =
     (if method = ''POST'' then
        (case first of
           Inl e \<Rightarrow> (json_failure (''Error durante el backup: '' @ str_exn e), w)
         | Inr None \<Rightarrow>
             (json_failure (''No se encontr'' @ [CHR 0xF3] @ '' configuraci'' @ [CHR 0xF3]
                              @ ''n del sistema''), w)
         | Inr (Some config) \<Rightarrow>
             if backup_bucket config = [] then
               (json_failure ''No se ha configurado un bucket de backup'', w)
             else
               (case S3Service_init be st w of
                  (Inl e, w1) \<Rightarrow> (json_failure (''Error durante el backup: '' @ str_exn e), w1)
                | (Inr s3_service, w1) \<Rightarrow>
                    (case copy_all_files be s3_service (config_bucket_name config)
                            (backup_bucket config) w1 of
                       (Inl e, w2) \<Rightarrow>
                         (json_failure (''Error durante el backup: '' @ str_exn e), w2)
                     | (Inr results, w2) \<Rightarrow>
                         if failed_files results \<noteq> [] then
                           (\<lparr>json_success = True, json_error = None, json_warning = Some True,
                             json_message = Some (''Backup completado con advertencias: ''
                               @ str_int (success_count results) @ ''/''
                               @ str_int (total_processed results) @ '' archivos copiados''),
                             json_results = Some results\<rparr>, w2)
                         else
                           (\<lparr>json_success = True, json_error = None, json_warning = None,
                             json_message = Some (''Backup completado exitosamente: ''
                               @ str_int (success_count results) @ '' archivos copiados''),
                             json_results = Some results\<rparr>, w2))))
      else (json_failure (''M'' @ [CHR 0xE9] @ ''todo no permitido''), w))"

section \<open>Observing a run\<close>

text \<open>
  The requests a run made are the events it appended to the world. The functions below
  read a list of events: the copy requests in it, those that succeeded, and the failure
  records (\<open>{'key': key, 'error': str(e)}\<close>) of those that raised.
\<close>

definition run_events :: "world \<Rightarrow> world \<Rightarrow> event list" where
  "run_events w w' = drop (length (calls w)) (calls w')"

fun copy_request_of :: "event \<Rightarrow> copy_request list" where
  "copy_request_of (CopyObject req, r) = [req]"
| "copy_request_of ev = []"

fun successful_copy_of :: "event \<Rightarrow> copy_request list" where
  "successful_copy_of (CopyObject req, None) = [req]"
| "successful_copy_of ev = []"

fun copy_failure_of :: "event \<Rightarrow> failed_file list" where
  "copy_failure_of (CopyObject req, Some e) = [\<lparr>key = Key req, error = str_exn e\<rparr>]"
| "copy_failure_of ev = []"

definition copy_requests :: "event list \<Rightarrow> copy_request list" where
  "copy_requests evs = concat (map copy_request_of evs)"

definition successful_copies :: "event list \<Rightarrow> copy_request list" where
  "successful_copies evs = concat (map successful_copy_of evs)"

definition copy_failures :: "event list \<Rightarrow> failed_file list" where
  "copy_failures evs = concat (map copy_failure_of evs)"

fun listed_keys :: "(exn + page) list \<Rightarrow> string list" where
  \<comment> \<open>the keys of all pages, in listing order\<close>
  "listed_keys [] = []"
| "listed_keys (Inr (Some contents) # ps) = contents @ listed_keys ps"
| "listed_keys (p # ps) = listed_keys ps"

fun replication_event :: "string \<Rightarrow> string \<Rightarrow> event \<Rightarrow> bool" where
  \<comment> \<open>what a replication run from \<open>s\<close> to \<open>t\<close> may send: a listing of \<open>s\<close>, or a copy of
      a key of \<open>s\<close> to the same key of \<open>t\<close> with the public-read ACL\<close>
  "replication_event s t (CopyObject req, r) =
     (CopySource_Bucket req = s \<and> Bucket req = t \<and> Key req = CopySource_Key req
      \<and> ACL req = ''public-read'')"
| "replication_event s t (ListObjectsV2 b, r) = (b = s)"
| "replication_event s t ev = False"

definition objects_run ::
  "backend \<Rightarrow> string \<Rightarrow> string \<Rightarrow> string list \<Rightarrow> report \<Rightarrow> (exn + report) \<Rightarrow> event list \<Rightarrow> bool" where
  \<comment> \<open>what the loop over the objects of one page did: it started from the report \<open>r\<close>, ended
      with \<open>out\<close>, and made the requests \<open>evs\<close>\<close>
  "objects_run be s t ks r out evs =
     (list_all (replication_event s t) evs
      \<and> (case out of
           Inr r' \<Rightarrow>
             map Key (copy_requests evs) = ks
             \<and> failed_files r' = failed_files r @ copy_failures evs
             \<and> success_count r' = success_count r + int (length (successful_copies evs))
             \<and> total_processed r' = total_processed r + int (length ks)
         | Inl e \<Rightarrow> \<not> is_ClientError e \<and> (\<exists>h req. copy_object be h req = Some e)))"

definition pages_run ::
  "backend \<Rightarrow> string \<Rightarrow> string \<Rightarrow> (exn + page) list \<Rightarrow> report \<Rightarrow> (exn + report) \<Rightarrow> event list \<Rightarrow> bool" where
  \<comment> \<open>the same for the loop over the pages\<close>
  "pages_run be s t ps r out evs =
     (list_all (replication_event s t) evs
      \<and> (case out of
           Inr r' \<Rightarrow>
             list_all (\<lambda>p. \<not> isl p) ps
             \<and> map Key (copy_requests evs) = listed_keys ps
             \<and> failed_files r' = failed_files r @ copy_failures evs
             \<and> success_count r' = success_count r + int (length (successful_copies evs))
             \<and> total_processed r' = total_processed r + int (length (listed_keys ps))
         | Inl e \<Rightarrow>
             Inl e \<in> set ps \<or> (\<not> is_ClientError e \<and> (\<exists>h req. copy_object be h req = Some e))))"

section \<open>The extension table, as the specification words it\<close>

definition table_content_type :: "string \<Rightarrow> string" where
  "table_content_type ext =
     (if ext = ''jpg'' \<or> ext = ''jpeg'' then ''image/jpeg''
      else if ext = ''png'' then ''image/png''
      else if ext = ''gif'' then ''image/gif''
      else if ext = ''webp'' then ''image/webp''
      else if ext = ''bmp'' then ''image/bmp''
      else ''application/octet-stream'')"

definition extension_of :: "string \<Rightarrow> string" where
  \<comment> \<open>the lower-cased text after the last dot; empty when the name has no dot\<close>
  "extension_of filename =
     (if CHR ''.'' \<in> set filename
      then rev (takeWhile (\<lambda>c. c \<noteq> CHR ''.'') (rev (py_lower filename)))
      else [])"

section \<open>What the constructor logs, as the specification words it\<close>




section \<open>Concrete backends and inputs\<close>

definition empty_world :: world where
  "empty_world = \<lparr>calls = [], log = []\<rparr>"

definition example_settings :: settings where
  "example_settings =
     \<lparr>AWS_ACCESS_KEY_ID = Some ''AKIAEXAMPLE'', AWS_SECRET_ACCESS_KEY = Some ''example-secret'',
      AWS_REGION = None, AWS_S3_BUCKET = None\<rparr>"




definition example_service :: s3_service where
  "example_service =
     \<lparr>s3_client = \<lparr>aws_access_key_id = Some ''AKIAEXAMPLE'',
                    aws_secret_access_key = Some ''example-secret'',
                    region_name = ''us-east-1''\<rparr>,
      bucket_name = ''jfm02''\<rparr>"

definition healthy_backend :: "(exn + page) list \<Rightarrow> backend" where
  \<comment> \<open>every request succeeds; listing any bucket yields the given pages\<close>
  "healthy_backend pages =
     \<lparr>boto3_client = (\<lambda>h c. None),
      head_bucket = (\<lambda>h b. None),
      upload_fileobj = (\<lambda>h req. None),
      delete_object = (\<lambda>h b k. None),
      paginate = (\<lambda>h b. pages),
      copy_object = (\<lambda>h req. None),
      head_object = (\<lambda>h b k. None)\<rparr>"

definition service_error :: "string \<Rightarrow> string \<Rightarrow> string \<Rightarrow> exn" where
  \<comment> \<open>the \<open>ClientError\<close> botocore builds from a parsed error response: code, message, and
      the operation that was called\<close>
  "service_error code msg operation =
     ClientError (Some \<lparr>Code = Some code, Message = Some msg\<rparr>)
       (''An error occurred ('' @ code @ '') when calling the '' @ operation
          @ '' operation: '' @ msg)"

definition access_denied :: exn where
  "access_denied = service_error ''AccessDenied'' ''Access Denied'' ''CopyObject''"

definition listing_denied :: exn where
  "listing_denied = service_error ''AccessDenied'' ''Access Denied'' ''ListObjectsV2''"

definition connection_closed :: exn where
  \<comment> \<open>a transport error: not a \<open>ClientError\<close>\<close>
  "connection_closed =
     PyException ''Connection was closed before we received a valid response from endpoint URL''"

definition one_forbidden_backend :: backend where
  \<comment> \<open>three objects on two of three pages; copying \<open>b.png\<close> is refused by the service\<close>
  "one_forbidden_backend =
     (healthy_backend [Inr (Some [''a.png'', ''b.png'']), Inr None, Inr (Some [''c.png''])])
       \<lparr>copy_object := (\<lambda>h req. if Key req = ''b.png'' then Some access_denied else None)\<rparr>"

definition dropping_backend :: backend where
  \<comment> \<open>two objects; the connection drops while \<open>a.png\<close> is copied\<close>
  "dropping_backend =
     (healthy_backend [Inr (Some [''a.png'', ''b.png''])])
       \<lparr>copy_object := (\<lambda>h req. if Key req = ''a.png'' then Some connection_closed else None)\<rparr>"

definition unlistable_backend :: backend where
  \<comment> \<open>the first page lists one object, fetching the second page is refused\<close>
  "unlistable_backend = healthy_backend [Inr (Some [''a.png'']), Inl listing_denied]"






definition read_only_backend :: backend where
  \<comment> \<open>uploads are refused by the service\<close>
  "read_only_backend =
     (healthy_backend [])
       \<lparr>upload_fileobj :=
          (\<lambda>h req. Some (service_error ''AccessDenied'' ''Access Denied'' ''PutObject''))\<rparr>"

definition terse_error_backend :: backend where
  \<comment> \<open>uploads are refused with an error response that has a code and no message\<close>
  "terse_error_backend =
     (healthy_backend [])
       \<lparr>upload_fileobj :=
          (\<lambda>h req. Some (ClientError (Some \<lparr>Code = Some ''AccessDenied'', Message = None\<rparr>)
             ''An error occurred (AccessDenied) when calling the PutObject operation: Unknown''))\<rparr>"

definition unreachable_backend :: backend where
  \<comment> \<open>the endpoint cannot be reached: botocore raises \<open>EndpointConnectionError\<close>, which is
      not a \<open>ClientError\<close>\<close>
  "unreachable_backend =
     (healthy_backend [])
       \<lparr>head_object := (\<lambda>h b k. Some (PyException ''Could not connect to the endpoint URL''))\<rparr>"

definition png_stream :: fileobj where
  \<comment> \<open>a \<open>BytesIO\<close>: no \<open>name\<close> attribute\<close>
  "png_stream = \<lparr>file_name = None, seek_raises = None, content = [137, 80, 78, 71]\<rparr>"

definition jpg_upload :: fileobj where
  \<comment> \<open>an uploaded file that carries its original name\<close>
  "jpg_upload = \<lparr>file_name = Some ''photo.jpg'', seek_raises = None, content = [255, 216, 255]\<rparr>"

definition same_bucket_config :: config where
  "same_bucket_config = \<lparr>config_bucket_name = ''jfm02'', backup_bucket = ''jfm02''\<rparr>"

definition no_backup_config :: config where
  "no_backup_config = \<lparr>config_bucket_name = ''jfm02'', backup_bucket = []\<rparr>"

definition one_forbidden_report :: report where
  \<comment> \<open>what the run against \<open>one_forbidden_backend\<close> reports\<close>
  "one_forbidden_report =
     \<lparr>success_count = 2,
      failed_files = [\<lparr>key = ''b.png'', error = str_exn access_denied\<rparr>],
      total_processed = 3\<rparr>"

definition half_fractions :: string where
  \<comment> \<open>three times the vulgar fraction one half, U+00BD\<close>
  "half_fractions = [CHR 0xBD, CHR 0xBD, CHR 0xBD]"

section \<open>Facts about the model\<close>

lemma calls_logger: "calls (logger l msg w) = calls w"
  by (simp add: logger_def)

lemma calls_record_call: "calls (record_call c r w) = calls w @ [(c, r)]"
  by (simp add: record_call_def)

lemma calls_upload_handler: "calls (snd (upload_handler k e w)) = calls w"
  by (simp add: upload_handler_def calls_logger split: exn.split sum.split)

lemma copy_events_count:
  "length (copy_requests evs) = length (successful_copies evs) + length (copy_failures evs)"
proof (induction evs)
  case Nil
  show ?case by (simp add: copy_requests_def copy_failures_def successful_copies_def)
next
  case (Cons ev evs)
  obtain c out where ev: "ev = (c, out)" by (cases ev)
  show ?case using Cons ev
    by (cases c; cases out)
       (simp_all add: copy_requests_def copy_failures_def successful_copies_def)
qed

lemma replication_event_copy:
  assumes "list_all (replication_event s t) evs" and "(CopyObject req, out) \<in> set evs"
  shows "ACL req = ''public-read'' \<and> Bucket req = t \<and> Key req = CopySource_Key req
         \<and> CopySource_Bucket req = s"
proof -
  from assms have "replication_event s t (CopyObject req, out)"
    by (auto simp: list_all_iff)
  then show ?thesis by simp
qed

subsection \<open>One step of the object loop\<close>

lemma copy_objects_step:
  "copy_objects be s t (k # ks) r w =
     (let req = \<lparr>CopySource_Bucket = s, CopySource_Key = k, Bucket = t, Key = k,
                  ACL = ''public-read''\<rparr>;
          out = copy_object be (calls w) req;
          w1 = record_call (CopyObject req) out w
      in case out of
           None \<Rightarrow>
             copy_objects be s t ks
               (r\<lparr>total_processed := total_processed r + 1,
                  success_count := success_count r + 1\<rparr>)
               (logger INFO (''Successfully copied '' @ k @ '' from '' @ s @ '' to '' @ t) w1)
         | Some e \<Rightarrow>
             if is_ClientError e then
               copy_objects be s t ks
                 (r\<lparr>total_processed := total_processed r + 1,
                    failed_files := failed_files r @ [\<lparr>key = k, error = str_exn e\<rparr>]\<rparr>)
                 (logger ERROR (''Failed to copy '' @ k @ '': '' @ str_exn e) w1)
             else (Inl e, w1))"
  by (simp add: Let_def split: option.split exn.split)

subsection \<open>The two loops, by induction on what was listed\<close>

lemma copy_objects_run:
  "\<exists>evs. calls (snd (copy_objects be s t ks r w)) = calls w @ evs
         \<and> objects_run be s t ks r (fst (copy_objects be s t ks r w)) evs"
proof (induction ks arbitrary: r w)
  case Nil
  show ?case
    by (simp add: objects_run_def copy_requests_def copy_failures_def successful_copies_def)
next
  case (Cons k ks)
  let ?req = "\<lparr>CopySource_Bucket = s, CopySource_Key = k, Bucket = t, Key = k,
                ACL = ''public-read''\<rparr>"
  show ?case
  proof (cases "copy_object be (calls w) ?req")
    case None
    let ?r1 = "r\<lparr>total_processed := total_processed r + 1, success_count := success_count r + 1\<rparr>"
    let ?w1 = "logger INFO (''Successfully copied '' @ k @ '' from '' @ s @ '' to '' @ t)
                 (record_call (CopyObject ?req) None w)"
    have step: "copy_objects be s t (k # ks) r w = copy_objects be s t ks ?r1 ?w1"
      using None by (simp only: copy_objects_step Let_def option.case)
    obtain evs where evs: "calls (snd (copy_objects be s t ks ?r1 ?w1)) = calls ?w1 @ evs"
      "objects_run be s t ks ?r1 (fst (copy_objects be s t ks ?r1 ?w1)) evs"
      using Cons.IH by blast
    have "calls (snd (copy_objects be s t (k # ks) r w)) = calls w @ ((CopyObject ?req, None) # evs)"
      using evs(1) step by (simp add: calls_logger calls_record_call)
    moreover have "objects_run be s t (k # ks) r (fst (copy_objects be s t (k # ks) r w))
                     ((CopyObject ?req, None) # evs)"
      using evs(2) unfolding step
      by (auto simp: objects_run_def copy_requests_def copy_failures_def successful_copies_def
               split: sum.splits)
    ultimately show ?thesis by blast
  next
    case (Some e)
    show ?thesis
    proof (cases "is_ClientError e")
      case True
      let ?r1 = "r\<lparr>total_processed := total_processed r + 1,
                    failed_files := failed_files r @ [\<lparr>key = k, error = str_exn e\<rparr>]\<rparr>"
      let ?w1 = "logger ERROR (''Failed to copy '' @ k @ '': '' @ str_exn e)
                   (record_call (CopyObject ?req) (Some e) w)"
      have step: "copy_objects be s t (k # ks) r w = copy_objects be s t ks ?r1 ?w1"
        using Some True by (simp only: copy_objects_step Let_def option.case if_True)
      obtain evs where evs: "calls (snd (copy_objects be s t ks ?r1 ?w1)) = calls ?w1 @ evs"
        "objects_run be s t ks ?r1 (fst (copy_objects be s t ks ?r1 ?w1)) evs"
        using Cons.IH by blast
      have "calls (snd (copy_objects be s t (k # ks) r w))
              = calls w @ ((CopyObject ?req, Some e) # evs)"
        using evs(1) step by (simp add: calls_logger calls_record_call)
      moreover have "objects_run be s t (k # ks) r (fst (copy_objects be s t (k # ks) r w))
                       ((CopyObject ?req, Some e) # evs)"
        using evs(2) unfolding step
        by (auto simp: objects_run_def copy_requests_def copy_failures_def successful_copies_def
                 split: sum.splits)
      ultimately show ?thesis by blast
    next
      case False
      have step: "copy_objects be s t (k # ks) r w = (Inl e, record_call (CopyObject ?req) (Some e) w)"
        using Some False by (simp only: copy_objects_step Let_def option.case if_False)
      have "calls (snd (copy_objects be s t (k # ks) r w)) = calls w @ [(CopyObject ?req, Some e)]"
        using step by (simp add: calls_record_call)
      moreover have "objects_run be s t (k # ks) r (fst (copy_objects be s t (k # ks) r w))
                       [(CopyObject ?req, Some e)]"
        unfolding step using False Some
        by (auto simp: objects_run_def)
      ultimately show ?thesis by blast
    qed
  qed
qed

lemma copy_pages_run:
  "\<exists>evs. calls (snd (copy_pages be s t ps r w)) = calls w @ evs
         \<and> pages_run be s t ps r (fst (copy_pages be s t ps r w)) evs"
proof (induction ps arbitrary: r w)
  case Nil
  show ?case
    by (simp add: pages_run_def copy_requests_def copy_failures_def successful_copies_def)
next
  case (Cons p ps)
  show ?case
  proof (cases p)
    case (Inl e)
    have "calls (snd (copy_pages be s t (p # ps) r w)) = calls w @ [(ListObjectsV2 s, Some e)]"
      using Inl by (simp add: calls_record_call)
    moreover have "pages_run be s t (p # ps) r (fst (copy_pages be s t (p # ps) r w))
                     [(ListObjectsV2 s, Some e)]"
      using Inl by (simp add: pages_run_def)
    ultimately show ?thesis by blast
  next
    case (Inr pg)
    let ?w0 = "record_call (ListObjectsV2 s) None w"
    show ?thesis
    proof (cases pg)
      case None
      have step: "copy_pages be s t (p # ps) r w = copy_pages be s t ps r ?w0"
        using Inr None by simp
      obtain evs where evs: "calls (snd (copy_pages be s t ps r ?w0)) = calls ?w0 @ evs"
        "pages_run be s t ps r (fst (copy_pages be s t ps r ?w0)) evs"
        using Cons.IH by blast
      have "calls (snd (copy_pages be s t (p # ps) r w)) = calls w @ ((ListObjectsV2 s, None) # evs)"
        using evs(1) step by (simp add: calls_record_call)
      moreover have "pages_run be s t (p # ps) r (fst (copy_pages be s t (p # ps) r w))
                       ((ListObjectsV2 s, None) # evs)"
        using evs(2) Inr None unfolding step
        by (auto simp: pages_run_def copy_requests_def copy_failures_def successful_copies_def
                 split: sum.splits)
      ultimately show ?thesis by blast
    next
      case (Some contents)
      obtain evs1 where evs1:
        "calls (snd (copy_objects be s t contents r ?w0)) = calls ?w0 @ evs1"
        "objects_run be s t contents r (fst (copy_objects be s t contents r ?w0)) evs1"
        using copy_objects_run by blast
      obtain x w1 where co: "copy_objects be s t contents r ?w0 = (x, w1)"
        by (cases "copy_objects be s t contents r ?w0")
      show ?thesis
      proof (cases x)
        case (Inl e)
        have step: "copy_pages be s t (p # ps) r w = (Inl e, w1)"
          using \<open>p = Inr pg\<close> Some co Inl by simp
        have "calls (snd (copy_pages be s t (p # ps) r w)) = calls w @ ((ListObjectsV2 s, None) # evs1)"
          using evs1(1) co step by (simp add: calls_record_call)
        moreover have "pages_run be s t (p # ps) r (fst (copy_pages be s t (p # ps) r w))
                         ((ListObjectsV2 s, None) # evs1)"
          using evs1(2) co Inl unfolding step
          by (auto simp: pages_run_def objects_run_def)
        ultimately show ?thesis by blast
      next
        case (Inr r1)
        have step: "copy_pages be s t (p # ps) r w = copy_pages be s t ps r1 w1"
          using \<open>p = Inr pg\<close> Some co Inr by simp
        obtain evs2 where evs2: "calls (snd (copy_pages be s t ps r1 w1)) = calls w1 @ evs2"
          "pages_run be s t ps r1 (fst (copy_pages be s t ps r1 w1)) evs2"
          using Cons.IH by blast
        have "calls (snd (copy_pages be s t (p # ps) r w))
                = calls w @ ((ListObjectsV2 s, None) # evs1 @ evs2)"
          using evs1(1) evs2(1) co step by (simp add: calls_record_call)
        moreover have "pages_run be s t (p # ps) r (fst (copy_pages be s t (p # ps) r w))
                         ((ListObjectsV2 s, None) # evs1 @ evs2)"
          using evs1(2) evs2(2) co Inr \<open>p = Inr pg\<close> Some unfolding step
          by (auto simp: pages_run_def objects_run_def copy_requests_def copy_failures_def
                         successful_copies_def split: sum.splits)
        ultimately show ?thesis by blast
      qed
    qed
  qed
qed

subsection \<open>The whole run\<close>

lemma copy_all_files_calls:
  "calls (snd (copy_all_files be self s t w))
     = calls (snd (copy_pages be s t (paginate be (calls w) s)
                     \<lparr>success_count = 0, failed_files = [], total_processed = 0\<rparr> w))"
  by (simp add: copy_all_files_def Let_def calls_logger split: prod.split sum.split exn.split)

lemma copy_all_files_Inr:
  "fst (copy_all_files be self s t w) = Inr results \<longleftrightarrow>
   fst (copy_pages be s t (paginate be (calls w) s)
          \<lparr>success_count = 0, failed_files = [], total_processed = 0\<rparr> w) = Inr results"
  by (simp add: copy_all_files_def Let_def split: prod.split sum.split exn.split)

lemma copy_all_files_Inl:
  "fst (copy_all_files be self s t w) = Inl e' \<longleftrightarrow>
   (\<exists>e. fst (copy_pages be s t (paginate be (calls w) s)
          \<lparr>success_count = 0, failed_files = [], total_processed = 0\<rparr> w) = Inl e
        \<and> e' = PyException ((if is_ClientError e then ''Cannot access source bucket: ''
                              else ''Backup failed: '') @ str_exn e))"
  by (auto simp: copy_all_files_def Let_def split: prod.split sum.split exn.split)

lemma copy_all_files_run:
  "pages_run be s t (paginate be (calls w) s)
     \<lparr>success_count = 0, failed_files = [], total_processed = 0\<rparr>
     (fst (copy_pages be s t (paginate be (calls w) s)
             \<lparr>success_count = 0, failed_files = [], total_processed = 0\<rparr> w))
     (run_events w (snd (copy_all_files be self s t w)))"
proof -
  let ?r0 = "\<lparr>success_count = 0, failed_files = [], total_processed = 0\<rparr>"
  let ?ps = "paginate be (calls w) s"
  obtain evs where evs: "calls (snd (copy_pages be s t ?ps ?r0 w)) = calls w @ evs"
    "pages_run be s t ?ps ?r0 (fst (copy_pages be s t ?ps ?r0 w)) evs"
    using copy_pages_run by blast
  from evs(1) have "run_events w (snd (copy_all_files be self s t w)) = evs"
    by (simp add: copy_all_files_calls run_events_def)
  with evs(2) show ?thesis by simp
qed

subsection \<open>Splitting a name at its dots\<close>

lemma py_split_nonempty: "py_split c s \<noteq> []"
  by (induction s) (simp_all add: Let_def)

lemma py_split_no_separator: "c \<notin> set s \<Longrightarrow> py_split c s = [s]"
  by (induction s) (auto simp: Let_def)

lemma py_split_separator: "c \<in> set s \<Longrightarrow> tl (py_split c s) \<noteq> []"
  by (induction s) (auto simp: Let_def py_split_nonempty)

lemma last_py_split: "last (py_split c s) = rev (takeWhile (\<lambda>x. x \<noteq> c) (rev s))"
proof (induction s)
  case Nil
  show ?case by simp
next
  case (Cons x xs)
  show ?case
  proof (cases "x = c")
    case True
    then show ?thesis
      using Cons.IH by (simp add: py_split_nonempty takeWhile_append)
  next
    case False
    show ?thesis
    proof (cases "c \<in> set xs")
      case True
      then have "tl (py_split c xs) \<noteq> []" by (rule py_split_separator)
      moreover have "py_split c xs = hd (py_split c xs) # tl (py_split c xs)"
        by (simp add: py_split_nonempty)
      ultimately have "last ((x # hd (py_split c xs)) # tl (py_split c xs)) = last (py_split c xs)"
        by (metis last_ConsR)
      then show ?thesis
        using False True Cons.IH by (auto simp: Let_def takeWhile_append)
    next
      case notin: False
      then show ?thesis
        using False by (simp add: py_split_no_separator takeWhile_append)
    qed
  qed
qed
section \<open>Replication: the report\<close>

text \<open>
  \<^bold>\<open>C1.\<close> Whenever \<open>copy_all_files\<close> returns a report, however many of the copies failed,
  the report satisfies \<open>total_processed = success_count + len(failed_files)\<close>.
\<close>

theorem copy_all_files_report_invariant:
  assumes "fst (copy_all_files be self source_bucket target_bucket w) = Inr results"
  shows "total_processed results = success_count results + int (length (failed_files results))"
proof -
  let ?r0 = "\<lparr>success_count = 0, failed_files = [], total_processed = 0\<rparr>"
  let ?ps = "paginate be (calls w) source_bucket"
  let ?evs = "run_events w (snd (copy_all_files be self source_bucket target_bucket w))"
  from assms have out: "fst (copy_pages be source_bucket target_bucket ?ps ?r0 w) = Inr results"
    by (simp only: copy_all_files_Inr)
  have "pages_run be source_bucket target_bucket ?ps ?r0
          (fst (copy_pages be source_bucket target_bucket ?ps ?r0 w)) ?evs"
    by (rule copy_all_files_run)
  then have run: "map Key (copy_requests ?evs) = listed_keys ?ps"
    "failed_files results = copy_failures ?evs"
    "success_count results = int (length (successful_copies ?evs))"
    "total_processed results = int (length (listed_keys ?ps))"
    unfolding out by (simp_all add: pages_run_def)
  have "length (listed_keys ?ps) = length (copy_requests ?evs)"
    using run(1) by (metis length_map)
  then show ?thesis
    using run copy_events_count [of ?evs] by simp
qed

text \<open>
  Three objects are listed and the copy of one is refused: the run reports 3 processed,
  2 copied and 1 failed.
\<close>

theorem copy_all_files_report_invariant_witness:
  "fst (copy_all_files one_forbidden_backend example_service ''jfm02'' ''jfm02-backup'' empty_world)
     = Inr one_forbidden_report
   \<and> total_processed one_forbidden_report = 3
   \<and> total_processed one_forbidden_report
       = success_count one_forbidden_report + int (length (failed_files one_forbidden_report))"
proof -
  have run: "fst (copy_all_files one_forbidden_backend example_service ''jfm02'' ''jfm02-backup''
                    empty_world) = Inr one_forbidden_report"
    by code_simp
  have "total_processed one_forbidden_report = 3"
    by (simp add: one_forbidden_report_def)
  with run copy_all_files_report_invariant [OF run] show ?thesis by simp
qed

text \<open>
  \<^bold>\<open>C4.\<close> As stated, any failure of a single copy is recorded in \<open>failed_files\<close> and the run
  goes on. The inner handler is \<open>except ClientError\<close> only, so this holds for the failures
  the storage service answers with an error response: when every exception a copy raises
  is a \<open>ClientError\<close> and no page of the listing fails, the run returns a report, every
  listed key was attempted in listing order, and \<open>failed_files\<close> holds exactly the copies
  that raised, each with its key and \<open>str(e)\<close>.
\<close>

theorem copy_all_files_records_client_errors:
  assumes "\<forall>p \<in> set (paginate be (calls w) source_bucket). \<not> isl p"
      and "\<forall>h req e. copy_object be h req = Some e \<longrightarrow> is_ClientError e"
  shows "\<exists>results.
           fst (copy_all_files be self source_bucket target_bucket w) = Inr results
           \<and> map Key (copy_requests
                        (run_events w (snd (copy_all_files be self source_bucket target_bucket w))))
               = listed_keys (paginate be (calls w) source_bucket)
           \<and> failed_files results
               = copy_failures
                   (run_events w (snd (copy_all_files be self source_bucket target_bucket w)))
           \<and> total_processed results
               = int (length (listed_keys (paginate be (calls w) source_bucket)))"
proof -
  let ?r0 = "\<lparr>success_count = 0, failed_files = [], total_processed = 0\<rparr>"
  let ?ps = "paginate be (calls w) source_bucket"
  let ?evs = "run_events w (snd (copy_all_files be self source_bucket target_bucket w))"
  let ?out = "fst (copy_pages be source_bucket target_bucket ?ps ?r0 w)"
  have run: "pages_run be source_bucket target_bucket ?ps ?r0 ?out ?evs"
    by (rule copy_all_files_run)
  show ?thesis
  proof (cases ?out)
    case (Inl e)
    with run have "Inl e \<in> set ?ps \<or> (\<not> is_ClientError e \<and> (\<exists>h req. copy_object be h req = Some e))"
      by (simp add: pages_run_def)
    then have False
    proof
      assume "Inl e \<in> set ?ps"
      with assms(1) show False by fastforce
    next
      assume "\<not> is_ClientError e \<and> (\<exists>h req. copy_object be h req = Some e)"
      with assms(2) show False by blast
    qed
    then show ?thesis ..
  next
    case (Inr results)
    then have "fst (copy_all_files be self source_bucket target_bucket w) = Inr results"
      by (simp only: copy_all_files_Inr)
    moreover from run Inr have "map Key (copy_requests ?evs) = listed_keys ?ps"
      "failed_files results = copy_failures ?evs"
      "total_processed results = int (length (listed_keys ?ps))"
      by (simp_all add: pages_run_def)
    ultimately show ?thesis by blast
  qed
qed

theorem copy_all_files_records_client_errors_witness:
  "\<exists>results.
     fst (copy_all_files one_forbidden_backend example_service ''jfm02'' ''jfm02-backup''
            empty_world) = Inr results
     \<and> map Key (copy_requests
                  (run_events empty_world
                     (snd (copy_all_files one_forbidden_backend example_service ''jfm02''
                             ''jfm02-backup'' empty_world))))
         = [''a.png'', ''b.png'', ''c.png'']
     \<and> failed_files results = [\<lparr>key = ''b.png'', error = str_exn access_denied\<rparr>]
     \<and> total_processed results = 3"
proof -
  have pages: "\<forall>p \<in> set (paginate one_forbidden_backend (calls empty_world) ''jfm02''). \<not> isl p"
    by (simp add: one_forbidden_backend_def healthy_backend_def)
  have errors: "\<forall>h req e. copy_object one_forbidden_backend h req = Some e \<longrightarrow> is_ClientError e"
    by (simp add: one_forbidden_backend_def healthy_backend_def access_denied_def
          service_error_def)
  have listed: "listed_keys (paginate one_forbidden_backend (calls empty_world) ''jfm02'')
                  = [''a.png'', ''b.png'', ''c.png'']"
    by (simp add: one_forbidden_backend_def healthy_backend_def)
  have failures: "copy_failures
                    (run_events empty_world
                       (snd (copy_all_files one_forbidden_backend example_service ''jfm02''
                               ''jfm02-backup'' empty_world)))
                  = [\<lparr>key = ''b.png'', error = str_exn access_denied\<rparr>]"
    by code_simp
  from copy_all_files_records_client_errors [OF pages errors, of example_service "''jfm02-backup''"]
  show ?thesis
    by (simp add: listed failures)
qed

text \<open>
  A copy that fails with anything but a \<open>ClientError\<close> is not recorded: the connection
  drops during the first of two copies, the exception reaches the outer handler, the run
  ends with \<open>Exception("Backup failed: ...")\<close>, and the second object is never attempted.
\<close>

theorem copy_all_files_transport_error_counterexample:
  "listed_keys (paginate dropping_backend (calls empty_world) ''jfm02'') = [''a.png'', ''b.png'']
   \<and> fst (copy_all_files dropping_backend example_service ''jfm02'' ''jfm02-backup'' empty_world)
       = Inl (PyException (''Backup failed: '' @ str_exn connection_closed))
   \<and> map Key (copy_requests
                (calls (snd (copy_all_files dropping_backend example_service ''jfm02''
                               ''jfm02-backup'' empty_world))))
       = [''a.png'']"
  by code_simp

text \<open>
  \<^bold>\<open>C5.\<close> If fetching any page of the listing fails, the run returns no report: it raises
  a plain \<open>Exception\<close> to the caller.
\<close>

theorem listing_failure_is_fatal:
  assumes "Inl e \<in> set (paginate be (calls w) source_bucket)"
  shows "\<exists>msg. fst (copy_all_files be self source_bucket target_bucket w) = Inl (PyException msg)"
proof -
  let ?r0 = "\<lparr>success_count = 0, failed_files = [], total_processed = 0\<rparr>"
  let ?ps = "paginate be (calls w) source_bucket"
  let ?out = "fst (copy_pages be source_bucket target_bucket ?ps ?r0 w)"
  have run: "pages_run be source_bucket target_bucket ?ps ?r0 ?out
               (run_events w (snd (copy_all_files be self source_bucket target_bucket w)))"
    by (rule copy_all_files_run)
  show ?thesis
  proof (cases ?out)
    case (Inl e1)
    then show ?thesis
      using copy_all_files_Inl [of be self source_bucket target_bucket w] by blast
  next
    case (Inr results)
    with run have "list_all (\<lambda>p. \<not> isl p) ?ps"
      by (simp add: pages_run_def)
    with assms have False
      by (auto simp: list_all_iff)
    then show ?thesis ..
  qed
qed

text \<open>
  The first page lists one object, which is copied; the second page cannot be fetched. The
  caller gets the exception and nothing of the report.
\<close>

theorem listing_failure_is_fatal_witness:
  "(\<exists>e. Inl e \<in> set (paginate unlistable_backend (calls empty_world) ''jfm02''))
   \<and> (\<exists>msg. fst (copy_all_files unlistable_backend example_service ''jfm02'' ''jfm02-backup''
                    empty_world) = Inl (PyException msg))
   \<and> map Key (successful_copies
                (calls (snd (copy_all_files unlistable_backend example_service ''jfm02''
                               ''jfm02-backup'' empty_world))))
       = [''a.png'']"
proof -
  have failed: "Inl listing_denied
    \<in> set (paginate unlistable_backend (calls empty_world) ''jfm02'')"
    by (simp add: unlistable_backend_def healthy_backend_def)
  have copied: "map Key (successful_copies
                  (calls (snd (copy_all_files unlistable_backend example_service ''jfm02''
                                 ''jfm02-backup'' empty_world)))) = [''a.png'']"
    by code_simp
  from listing_failure_is_fatal [OF failed, of example_service "''jfm02-backup''"] failed copied
  show ?thesis by blast
qed

text \<open>
  \<^bold>\<open>C10.\<close> Every copy request of a replication run goes to the target bucket, under the
  key it has in the source bucket, with \<open>ACL='public-read'\<close>; and the \<open>success_count\<close> of a
  returned report counts exactly the copy requests that succeeded. So every object the run
  copied is publicly readable in the target bucket, whatever its settings in the source.
\<close>

theorem replication_copies_are_public_read:
  "(\<forall>req out.
      (CopyObject req, out)
        \<in> set (run_events w (snd (copy_all_files be self source_bucket target_bucket w)))
      \<longrightarrow> ACL req = ''public-read'' \<and> Bucket req = target_bucket
          \<and> Key req = CopySource_Key req \<and> CopySource_Bucket req = source_bucket)
   \<and> (\<forall>results.
        fst (copy_all_files be self source_bucket target_bucket w) = Inr results
        \<longrightarrow> success_count results
              = int (length (successful_copies
                   (run_events w (snd (copy_all_files be self source_bucket target_bucket w))))))"
proof -
  let ?r0 = "\<lparr>success_count = 0, failed_files = [], total_processed = 0\<rparr>"
  let ?ps = "paginate be (calls w) source_bucket"
  let ?out = "fst (copy_pages be source_bucket target_bucket ?ps ?r0 w)"
  let ?evs = "run_events w (snd (copy_all_files be self source_bucket target_bucket w))"
  have run: "pages_run be source_bucket target_bucket ?ps ?r0 ?out ?evs"
    by (rule copy_all_files_run)
  then have "list_all (replication_event source_bucket target_bucket) ?evs"
    by (simp add: pages_run_def)
  then have acl: "\<forall>req out. (CopyObject req, out) \<in> set ?evs
      \<longrightarrow> ACL req = ''public-read'' \<and> Bucket req = target_bucket
          \<and> Key req = CopySource_Key req \<and> CopySource_Bucket req = source_bucket"
    using replication_event_copy by blast
  have "\<forall>results. fst (copy_all_files be self source_bucket target_bucket w) = Inr results
      \<longrightarrow> success_count results = int (length (successful_copies ?evs))"
  proof (intro allI impI)
    fix results
    assume "fst (copy_all_files be self source_bucket target_bucket w) = Inr results"
    then have "?out = Inr results" by (simp only: copy_all_files_Inr)
    with run show "success_count results = int (length (successful_copies ?evs))"
      by (simp add: pages_run_def)
  qed
  with acl show ?thesis by blast
qed

theorem replication_copies_are_public_read_witness:
  "(CopyObject \<lparr>CopySource_Bucket = ''jfm02'', CopySource_Key = ''c.png'',
                Bucket = ''jfm02-backup'', Key = ''c.png'', ACL = ''public-read''\<rparr>, None)
     \<in> set (run_events empty_world
              (snd (copy_all_files one_forbidden_backend example_service ''jfm02''
                      ''jfm02-backup'' empty_world)))
   \<and> fst (copy_all_files one_forbidden_backend example_service ''jfm02'' ''jfm02-backup''
            empty_world) = Inr one_forbidden_report
   \<and> success_count one_forbidden_report
       = int (length (successful_copies
            (run_events empty_world
               (snd (copy_all_files one_forbidden_backend example_service ''jfm02''
                       ''jfm02-backup'' empty_world)))))
   \<and> success_count one_forbidden_report = 2"
proof -
  have sent: "(CopyObject \<lparr>CopySource_Bucket = ''jfm02'', CopySource_Key = ''c.png'',
                Bucket = ''jfm02-backup'', Key = ''c.png'', ACL = ''public-read''\<rparr>, None)
     \<in> set (run_events empty_world
              (snd (copy_all_files one_forbidden_backend example_service ''jfm02''
                      ''jfm02-backup'' empty_world)))"
    by code_simp
  have run: "fst (copy_all_files one_forbidden_backend example_service ''jfm02'' ''jfm02-backup''
                    empty_world) = Inr one_forbidden_report"
    by code_simp
  have two: "success_count one_forbidden_report = 2"
    by (simp add: one_forbidden_report_def)
  from replication_copies_are_public_read
         [of empty_world one_forbidden_backend example_service "''jfm02''" "''jfm02-backup''"]
       sent run two
  show ?thesis by blast
qed

section \<open>Single objects\<close>

text \<open>
  \<^bold>\<open>C6.\<close> \<open>upload_file\<close> is to return \<open>False\<close> for every error of an upload and never
  to raise; its two \<open>except\<close> clauses are there for that. The first of them reads
  \<open>e.response['Error']['Message']\<close> with a plain subscript while it builds its log message.
  When the service refuses the upload with an error response that has a code and no
  message, the \<open>KeyError\<close> leaves \<open>upload_file\<close>: the request was sent, nothing is logged
  about its failure, and the caller gets the exception instead of \<open>False\<close>.
\<close>

theorem upload_file_raises_key_error:
  "upload_fileobj terse_error_backend []
      \<lparr>Fileobj = content png_stream, upload_Bucket = ''jfm02'', upload_Key = ''products/x.png'',
        ContentType = ''image/png''\<rparr>
     = Some (ClientError (Some \<lparr>Code = Some ''AccessDenied'', Message = None\<rparr>)
         ''An error occurred (AccessDenied) when calling the PutObject operation: Unknown'')
   \<and> fst (upload_file terse_error_backend example_service png_stream ''products/x.png''
            empty_world)
       = Inl (KeyError ''Message'')
   \<and> map fst (calls (snd (upload_file terse_error_backend example_service png_stream
                            ''products/x.png'' empty_world)))
       = [UploadFileobj \<lparr>Fileobj = content png_stream, upload_Bucket = ''jfm02'',
                          upload_Key = ''products/x.png'', ContentType = ''image/png''\<rparr>]
   \<and> log (snd (upload_file terse_error_backend example_service png_stream ''products/x.png''
                  empty_world))
       = [(INFO, ''Uploading products/x.png to bucket jfm02'')]"
  by code_simp

text \<open>
  \<^bold>\<open>C7.\<close> As stated, the content type comes from the key. \<open>upload_file\<close> passes
  \<open>getattr(file, 'name', key)\<close> to \<open>_get_content_type\<close>: the name of the file object when
  it has one, the key otherwise. With that, the table is the stated one: the lower-cased
  text after the last dot selects jpg/jpeg, png, gif, webp or bmp, and anything else is
  \<open>application/octet-stream\<close>; a stream without a name uploaded under \<open>x.png\<close> is sent as
  \<open>image/png\<close>, and \<open>x.unknownext\<close> selects \<open>application/octet-stream\<close>.
\<close>

theorem upload_content_type:
  "get_content_type filename = table_content_type (extension_of filename)
   \<and> (seek_raises file = None \<longrightarrow>
        map fst (run_events w (snd (upload_file be self file object_key w)))
          = [UploadFileobj
               \<lparr>Fileobj = content file, upload_Bucket = bucket_name self,
                 upload_Key = object_key,
                 ContentType = get_content_type
                                 (case file_name file of None \<Rightarrow> object_key | Some n \<Rightarrow> n)\<rparr>])
   \<and> get_content_type ''x.png'' = ''image/png''
   \<and> get_content_type ''x.unknownext'' = ''application/octet-stream''"
proof (intro conjI)
  show "get_content_type filename = table_content_type (extension_of filename)"
    by (simp add: get_content_type_def table_content_type_def extension_of_def content_types_def
          last_py_split Let_def)
  show "seek_raises file = None \<longrightarrow>
        map fst (run_events w (snd (upload_file be self file object_key w)))
          = [UploadFileobj
               \<lparr>Fileobj = content file, upload_Bucket = bucket_name self,
                 upload_Key = object_key,
                 ContentType = get_content_type
                                 (case file_name file of None \<Rightarrow> object_key | Some n \<Rightarrow> n)\<rparr>]"
    by (simp add: upload_file_def calls_upload_handler run_events_def Let_def calls_logger
          calls_record_call split: option.split)
  show "get_content_type ''x.png'' = ''image/png''"
    by code_simp
  show "get_content_type ''x.unknownext'' = ''application/octet-stream''"
    by code_simp
qed

theorem upload_content_type_witness:
  "seek_raises png_stream = None
   \<and> map fst (run_events empty_world
                (snd (upload_file (healthy_backend []) example_service png_stream ''x.png''
                        empty_world)))
       = [UploadFileobj \<lparr>Fileobj = content png_stream, upload_Bucket = ''jfm02'',
                          upload_Key = ''x.png'', ContentType = ''image/png''\<rparr>]"
proof -
  have rewound: "seek_raises png_stream = None"
    by (simp add: png_stream_def)
  have name: "(case file_name png_stream of None \<Rightarrow> ''x.png'' | Some n \<Rightarrow> n) = ''x.png''"
    by (simp add: png_stream_def)
  have bucket: "bucket_name example_service = ''jfm02''"
    by (simp add: example_service_def)
  have png: "get_content_type ''x.png'' = ''image/png''"
    by code_simp
  from upload_content_type
         [of "''x.png''" png_stream empty_world "healthy_backend []" example_service "''x.png''"]
       rewound
  show ?thesis by (simp add: name bucket png)
qed

text \<open>
  An uploaded file named \<open>photo.jpg\<close> stored under the key \<open>x.png\<close> is sent as
  \<open>image/jpeg\<close>, not as the \<open>image/png\<close> of the key.
\<close>

theorem upload_content_type_counterexample:
  "file_name jpg_upload = Some ''photo.jpg''
   \<and> run_events empty_world
        (snd (upload_file (healthy_backend []) example_service jpg_upload ''x.png'' empty_world))
       = [(UploadFileobj \<lparr>Fileobj = [255, 216, 255], upload_Bucket = ''jfm02'',
                           upload_Key = ''x.png'', ContentType = ''image/jpeg''\<rparr>, None)]"
  by code_simp

text \<open>
  \<^bold>\<open>C8.\<close> \<open>file_exists\<close> is to answer \<open>False\<close> on any error of the existence check and
  to surface none. It catches \<open>ClientError\<close> only: when the endpoint cannot be reached,
  botocore raises an exception that is not a \<open>ClientError\<close>, and \<open>file_exists\<close> lets it
  through to the caller instead of returning \<open>False\<close>.
\<close>

theorem file_exists_propagates_transport_error:
  "fst (file_exists unreachable_backend example_service ''products/x.png'' empty_world)
     = Inl (PyException ''Could not connect to the endpoint URL'')"
  by code_simp

section \<open>Configuration\<close>

text \<open>
  \<^bold>\<open>C9.\<close> The validator of the bucket name accepts \<open>my-bucket.01\<close>, rejects \<open>ab\<close> as too
  short and \<open>My_Bucket\<close> for its characters. As stated, whatever it accepts is made of
  letters, digits, hyphens and dots. The check is \<open>str.isalnum\<close> on the name without its
  hyphens and dots, and \<open>isalnum\<close> accepts more than letters and digits: whatever the
  validator accepts has 3 to 63 characters, each a hyphen, a dot, a letter, a digit, or
  another numeric character.
\<close>

theorem clean_bucket_name_validates:
  "clean_bucket_name (Some ''my-bucket.01'') = Inr ''my-bucket.01''
   \<and> clean_bucket_name (Some ''ab'')
       = Inl (ValidationError ''El nombre del bucket debe tener entre 3 y 63 caracteres.'')
   \<and> clean_bucket_name (Some ''My_Bucket'')
       = Inl (ValidationError (''El nombre del bucket solo puede contener letras, n''
                                 @ [CHR 0xFA] @ ''meros, guiones y puntos.''))
   \<and> (\<forall>name_opt accepted.
        clean_bucket_name name_opt = Inr accepted \<longrightarrow>
          (\<exists>name. name_opt = Some name \<and> 3 \<le> length name \<and> length name \<le> 63
             \<and> (\<forall>c \<in> set name. py_isalpha_char c \<or> py_isdigit_char c \<or> py_isnumeric_char c
                                  \<or> c = CHR ''-'' \<or> c = CHR ''.'')))"
proof (intro conjI)
  show "clean_bucket_name (Some ''my-bucket.01'') = Inr ''my-bucket.01''"
    by code_simp
  show "clean_bucket_name (Some ''ab'')
          = Inl (ValidationError ''El nombre del bucket debe tener entre 3 y 63 caracteres.'')"
    by code_simp
  show "clean_bucket_name (Some ''My_Bucket'')
          = Inl (ValidationError (''El nombre del bucket solo puede contener letras, n''
                                    @ [CHR 0xFA] @ ''meros, guiones y puntos.''))"
    by code_simp
  have digits: "py_isdecimal_char c \<Longrightarrow> py_isdigit_char c" for c
    by (simp add: py_isdecimal_char_def py_isdigit_char_def Let_def)
  show "\<forall>name_opt accepted.
        clean_bucket_name name_opt = Inr accepted \<longrightarrow>
          (\<exists>name. name_opt = Some name \<and> 3 \<le> length name \<and> length name \<le> 63
             \<and> (\<forall>c \<in> set name. py_isalpha_char c \<or> py_isdigit_char c \<or> py_isnumeric_char c
                                  \<or> c = CHR ''-'' \<or> c = CHR ''.''))"
    using digits
    by (auto simp: clean_bucket_name_def py_isalnum_def py_remove_def list_all_iff
             split: option.splits if_splits)
qed

theorem clean_bucket_name_validates_witness:
  "clean_bucket_name (Some ''My-Bucket.01'') = Inr ''my-bucket.01''
   \<and> 3 \<le> length ''My-Bucket.01'' \<and> length ''My-Bucket.01'' \<le> 63
   \<and> list_all (\<lambda>c. py_isalpha_char c \<or> py_isdigit_char c \<or> py_isnumeric_char c
                    \<or> c = CHR ''-'' \<or> c = CHR ''.'')
        ''My-Bucket.01''"
proof -
  have accepted: "clean_bucket_name (Some ''My-Bucket.01'') = Inr ''my-bucket.01''"
    by code_simp
  from clean_bucket_name_validates accepted
  have "\<exists>name. Some ''My-Bucket.01'' = Some name \<and> 3 \<le> length name \<and> length name \<le> 63
          \<and> (\<forall>c \<in> set name. py_isalpha_char c \<or> py_isdigit_char c \<or> py_isnumeric_char c
                               \<or> c = CHR ''-'' \<or> c = CHR ''.'')"
    by blast
  then have "3 \<le> length ''My-Bucket.01'' \<and> length ''My-Bucket.01'' \<le> 63
          \<and> (\<forall>c \<in> set ''My-Bucket.01''. py_isalpha_char c \<or> py_isdigit_char c
                               \<or> py_isnumeric_char c \<or> c = CHR ''-'' \<or> c = CHR ''.'')"
    by blast
  with accepted show ?thesis
    by (simp only: list_all_iff) blast
qed

text \<open>
  The name made of three vulgar fractions one half has a valid length and passes
  \<open>isalnum\<close>, so it is accepted; the fraction is no letter, no digit, no hyphen and no dot.
\<close>

theorem clean_bucket_name_fractions_counterexample:
  "clean_bucket_name (Some half_fractions) = Inr half_fractions
   \<and> CHR 0xBD \<in> set half_fractions
   \<and> \<not> py_isalpha_char (CHR 0xBD)
   \<and> \<not> py_isdecimal_char (CHR 0xBD)
   \<and> \<not> py_isdigit_char (CHR 0xBD)
   \<and> CHR 0xBD \<noteq> CHR ''-''
   \<and> CHR 0xBD \<noteq> CHR ''.''"
  by code_simp

section \<open>Constructing the client\<close>




section \<open>The backup trigger\<close>

text \<open>
  \<^bold>\<open>C2.\<close> As stated, a replication whose target is the source, or whose backup bucket is
  unset, fails before anything is listed. The view checks the backup bucket only: when it
  is unset (or there is no configuration row), the answer is a failure response and
  nothing is sent to the storage service, not even the construction of the client.
\<close>

theorem admin_backup_without_backup_bucket:
  "(backup_bucket config = [] \<longrightarrow>
      admin_backup be st (Inr (Some config)) ''POST'' w
        = (json_failure ''No se ha configurado un bucket de backup'', w))
   \<and> admin_backup be st (Inr None) ''POST'' w
       = (json_failure (''No se encontr'' @ [CHR 0xF3] @ '' configuraci'' @ [CHR 0xF3]
                          @ ''n del sistema''), w)"
  by (simp add: admin_backup_def)

theorem admin_backup_without_backup_bucket_witness:
  "backup_bucket no_backup_config = []
   \<and> admin_backup (healthy_backend [Inr (Some [''a.png''])]) example_settings
        (Inr (Some no_backup_config)) ''POST'' empty_world
       = (json_failure ''No se ha configurado un bucket de backup'', empty_world)"
proof -
  have unset: "backup_bucket no_backup_config = []"
    by (simp add: no_backup_config_def)
  with admin_backup_without_backup_bucket
         [of no_backup_config "healthy_backend [Inr (Some [''a.png''])]" example_settings
             empty_world]
  show ?thesis by blast
qed

text \<open>
  The backup bucket is the primary bucket. The view constructs the client, the bucket is
  listed, and its one object is copied onto itself: the answer is a success.
\<close>

theorem admin_backup_same_bucket_counterexample:
  "config_bucket_name same_bucket_config = backup_bucket same_bucket_config
   \<and> json_success (fst (admin_backup (healthy_backend [Inr (Some [''a.png''])]) example_settings
                          (Inr (Some same_bucket_config)) ''POST'' empty_world))
   \<and> map fst (calls (snd (admin_backup (healthy_backend [Inr (Some [''a.png''])])
                            example_settings (Inr (Some same_bucket_config)) ''POST''
                            empty_world)))
       = [Boto3Client (s3_client example_service),
          HeadBucket ''jfm02'',
          ListObjectsV2 ''jfm02'',
          CopyObject \<lparr>CopySource_Bucket = ''jfm02'', CopySource_Key = ''a.png'',
                      Bucket = ''jfm02'', Key = ''a.png'', ACL = ''public-read''\<rparr>]"
  by code_simp

end
